theory Spec2Isabelle
  imports Main
begin

section \<open>DDNS client script: data model\<close>

text \<open>
  The client (\<^verbatim>\<open>src/utils/client-script.py\<close>) repeats one cycle for ever: ask the
  server for the public IP address, post it to the update endpoint, sleep. The servers
  on the network, the JSON codec of the standard library and the clock are not code of
  the script; they are the fields of an environment \<open>env\<close>, and every general theorem
  holds for all of them. \<^verbatim>\<open>urlopen\<close> is the one of \<^verbatim>\<open>urllib.request\<close> with its default
  opener, which follows redirects itself; it is modelled from \<^verbatim>\<open>urllib/request.py\<close>
  of Python 3.11.

  A Python \<^verbatim>\<open>str\<close> is kept as the list of the bytes of its UTF-8 encoding (a lone
  surrogate, which only an escape inside a JSON text can produce, encoded like any other
  code point). The script compares, concatenates and strips strings and never counts or
  indexes their characters, so nothing depends on where one character ends.
\<close>

subsection \<open>Decoded values\<close>

text \<open>
  A float is kept as \<open>mantissa * 2 ^ exponent\<close>, or as one of the three special values:
  the script never computes with a decoded number, it only tests its truth value.
\<close>

datatype pyfloat = Finite int int | Infinite bool | NaN

text \<open>What \<^verbatim>\<open>json.loads\<close> returns. A dict keeps its keys in insertion order.\<close>

datatype json =
    JNull
  | JBool bool
  | JInt int
  | JFloat pyfloat
  | JStr string
  | JList "json list"
  | JDict "(string \<times> json) list"

text \<open>Python's truth value of a decoded value (\<^verbatim>\<open>if x:\<close>).\<close>

fun truthy :: "json \<Rightarrow> bool" where
  "truthy JNull = False"
| "truthy (JBool b) = b"
| "truthy (JInt i) = (i \<noteq> 0)"
| "truthy (JFloat (Finite m e)) = (m \<noteq> 0)"
| "truthy (JFloat (Infinite s)) = True"
| "truthy (JFloat NaN) = True"
| "truthy (JStr s) = (s \<noteq> [])"
| "truthy (JList xs) = (xs \<noteq> [])"
| "truthy (JDict kvs) = (kvs \<noteq> [])"

text \<open>The name Python prints for the type of a value, as it appears in error messages.\<close>

fun type_name :: "json \<Rightarrow> string" where
  "type_name JNull = ''NoneType''"
| "type_name (JBool b) = ''bool''"
| "type_name (JInt i) = ''int''"
| "type_name (JFloat f) = ''float''"
| "type_name (JStr s) = ''str''"
| "type_name (JList xs) = ''list''"
| "type_name (JDict kvs) = ''dict''"

subsection \<open>Exceptions\<close>

text \<open>
  An exception object: its class, the text \<^verbatim>\<open>str(error)\<close> gives, the two attributes
  \<^verbatim>\<open>log_error\<close> looks for (\<open>None\<close> when the object has no such attribute), and the
  exception it was raised \<^verbatim>\<open>from\<close>. Tracebacks proper and the implicit chaining of
  an exception raised inside a handler are not part of the model.
\<close>

datatype exc =
  Exc (cls: string) (message: string) (response: "json option")
      (traceback: "string option") (cause: "exc option")

abbreviation Exception :: "string \<Rightarrow> exc" where
  "Exception msg \<equiv> Exc ''Exception'' msg None None None"

abbreviation Exception_from :: "string \<Rightarrow> exc \<Rightarrow> exc" where
  "Exception_from msg e \<equiv> Exc ''Exception'' msg None None (Some e)"

subsection \<open>The network\<close>

type_synonym headers = "(string \<times> string) list"

text \<open>
  \<^verbatim>\<open>response.read().decode('utf-8')\<close>: the text of the body, or the exception that
  reading or decoding raised.
\<close>

datatype read_result = Text string | ReadFails exc

record http_response =
  status :: int
  reason :: string
  hdrs :: headers
  body :: read_result

record request =
  req_url :: string
  req_method :: string
  req_headers :: headers
  req_data :: "string option"

text \<open>
  One HTTP exchange, as the handlers of \<^verbatim>\<open>urllib\<close> see it: the server's answer (of
  any status), a \<^verbatim>\<open>URLError\<close> (with the text of \<^verbatim>\<open>str(e)\<close>) when the connection
  fails, or an exception of another class (which also stands for \<^verbatim>\<open>Request(...)\<close>
  rejecting the URL). An exception carried by \<open>OtherRaised\<close>, \<open>ReadFails\<close> or
  \<open>LoadsRaises\<close> is of a class that is neither \<^verbatim>\<open>URLError\<close> nor a subclass of it.
\<close>

datatype exchange =
    Answer http_response
  | URLErrorRaised string
  | OtherRaised exc

text \<open>
  What a call \<^verbatim>\<open>urlopen(req)\<close> does: it returns a response, raises \<^verbatim>\<open>HTTPError\<close>
  (status code, reason phrase, headers, body), raises \<^verbatim>\<open>URLError\<close>, or raises an
  exception of another class.
\<close>

datatype outcome =
    Returns http_response
  | RaisesHTTPError int string headers read_result
  | RaisesURLError string
  | RaisesOther exc

text \<open>
  The request body argument of \<^verbatim>\<open>make_request\<close>: \<^verbatim>\<open>None\<close>, a dict, a str, or the
  bytes an earlier pass of the loop has left in the variable.
\<close>

datatype payload = NoData | DictData "(string \<times> json) list" | StrData string | BytesData string

text \<open>
  What \<^verbatim>\<open>json.loads(text)\<close> does: it returns the decoded value, raises
  \<^verbatim>\<open>JSONDecodeError\<close>, or raises an exception of another class (\<^verbatim>\<open>RecursionError\<close>
  on a deeply nested text, \<^verbatim>\<open>ValueError\<close> on an integer of more than 4300 digits).
\<close>

datatype loads_result = Decoded json | JSONDecodeError | LoadsRaises exc

text \<open>
  The environment. \<open>http env n req\<close> is the exchange that the \<open>n\<close>-th HTTP request of
  the process (counting from 0) gives when that request is \<open>req\<close>, so a server may answer
  every request differently. \<open>url_scheme\<close> is \<^verbatim>\<open>urlparse(url).scheme\<close>, and
  \<open>url_resolve base location\<close> is the URL that \<^verbatim>\<open>http_error_302\<close> makes of a
  \<^verbatim>\<open>Location\<close> value (\<^verbatim>\<open>urlunparse\<close>, \<^verbatim>\<open>quote\<close>, \<^verbatim>\<open>urljoin\<close> with the URL of the
  request, spaces as \<^verbatim>\<open>%20\<close>). \<open>json_loads\<close> is \<^verbatim>\<open>json.loads\<close>. \<open>py_repr\<close> is
  \<^verbatim>\<open>str()\<close> of a decoded value that is not a string. \<open>strftime_next n\<close> is the
  formatted time \<^verbatim>\<open>UPDATE_INTERVAL\<close> seconds after the moment the \<open>n\<close>-th request has
  been answered. \<open>token\<close>, \<open>server_url\<close> and \<open>domain\<close> are the three placeholders of the
  script; \<open>debug\<close> is the truth value of the environment variable \<^verbatim>\<open>DEBUG\<close>.
\<close>

record env =
  http :: "nat \<Rightarrow> request \<Rightarrow> exchange"
  url_scheme :: "string \<Rightarrow> string"
  url_resolve :: "string \<Rightarrow> string \<Rightarrow> string"
  json_loads :: "string \<Rightarrow> loads_result"
  json_dumps :: "json \<Rightarrow> string"
  py_repr :: "json \<Rightarrow> string"
  strftime_next :: "nat \<Rightarrow> string"
  token :: string
  server_url :: string
  domain :: string
  debug :: bool

definition UPDATE_INTERVAL :: nat where
  "UPDATE_INTERVAL = 300"

subsection \<open>The console and the process state\<close>

text \<open>
  What the process does that can be observed: the lines it prints (level and message;
  the \<^verbatim>\<open>[HH:MM:SS]\<close> prefix is left out) and the sleeps it takes, in order. The state
  also counts the HTTP requests made so far.
\<close>

datatype event = Log string string | Sleep nat

record state =
  requests :: nat
  trace :: "event list"

definition log :: "string \<Rightarrow> string \<Rightarrow> state \<Rightarrow> state" where
  "log level msg s = s\<lparr>trace := trace s @ [Log level msg]\<rparr>"

definition sleep :: "nat \<Rightarrow> state \<Rightarrow> state" where
  "sleep secs s = s\<lparr>trace := trace s @ [Sleep secs]\<rparr>"

text \<open>\<^verbatim>\<open>str(x)\<close> inside an f-string: a string is printed as it is.\<close>

definition py_str :: "env \<Rightarrow> json \<Rightarrow> string" where
  "py_str env v = (case v of JStr s \<Rightarrow> s | _ \<Rightarrow> py_repr env v)"

text \<open>
  \<^verbatim>\<open>log_error(context, error)\<close>: one line with the context and \<^verbatim>\<open>str(error)\<close>; a
  second line when the error object has a truthy \<^verbatim>\<open>response\<close> attribute; a third
  when it has a \<^verbatim>\<open>traceback\<close> attribute and \<^verbatim>\<open>DEBUG\<close> is set.
\<close>

definition log_error :: "env \<Rightarrow> string \<Rightarrow> exc \<Rightarrow> state \<Rightarrow> state" where
  "log_error env ctxt error s =
     (let s1 = log ''ERROR'' (ctxt @ '': '' @ message error) s;
          s2 = (case response error of
                  Some r \<Rightarrow> if truthy r then log ''ERROR'' (''Server response: '' @ py_str env r) s1 else s1
                | None \<Rightarrow> s1)
      in case traceback error of
           Some tb \<Rightarrow> if debug env then log ''ERROR'' tb s2 else s2
         | None \<Rightarrow> s2)"

section \<open>The request helper\<close>

subsection \<open>Text helpers\<close>

fun digit_char :: "nat \<Rightarrow> char" where
  "digit_char n = char_of (48 + n)"

fun show_nat :: "nat \<Rightarrow> string" where
  "show_nat n = (if n < 10 then [digit_char n] else show_nat (n div 10) @ [digit_char (n mod 10)])"

declare show_nat.simps [simp del]

text \<open>A text between single quotes.\<close>

definition quoted :: "string \<Rightarrow> string" where
  "quoted s = [CHR 0x27] @ s @ [CHR 0x27]"

text \<open>The decimal text of an integer, as an f-string prints \<^verbatim>\<open>e.code\<close>.\<close>

definition show_int :: "int \<Rightarrow> string" where
  "show_int i = (if i < 0 then CHR ''-'' # show_nat (nat (- i)) else show_nat (nat i))"

text \<open>
  A byte string made only of the characters \<^verbatim>\<open>str.strip()\<close> removes, that is those
  for which \<^verbatim>\<open>str.isspace\<close> holds. In UTF-8: the bytes 9 to 13 and 28 to 32; U+0085 and
  U+00A0 (\<open>C2 85\<close>, \<open>C2 A0\<close>); U+1680 (\<open>E1 9A 80\<close>); U+2000 to U+200A, U+2028, U+2029 and
  U+202F (\<open>E2 80\<close> then \<open>80\<close> to \<open>8A\<close>, \<open>A8\<close>, \<open>A9\<close>, \<open>AF\<close>); U+205F (\<open>E2 81 9F\<close>);
  U+3000 (\<open>E3 80 80\<close>).
\<close>

fun blank_bytes :: "nat list \<Rightarrow> bool" where
  "blank_bytes [] = True"
| "blank_bytes (a # rest) =
     (if (9 \<le> a \<and> a \<le> 13) \<or> (28 \<le> a \<and> a \<le> 32) then blank_bytes rest
      else case rest of
             [] \<Rightarrow> False
           | b # rest2 \<Rightarrow>
               if a = 0xC2 \<and> (b = 0x85 \<or> b = 0xA0) then blank_bytes rest2
               else case rest2 of
                      [] \<Rightarrow> False
                    | c # rest3 \<Rightarrow>
                        if (a = 0xE1 \<and> b = 0x9A \<and> c = 0x80) \<or>
                           (a = 0xE2 \<and> b = 0x80 \<and>
                              ((0x80 \<le> c \<and> c \<le> 0x8A) \<or> c = 0xA8 \<or> c = 0xA9 \<or> c = 0xAF)) \<or>
                           (a = 0xE2 \<and> b = 0x81 \<and> c = 0x9F) \<or>
                           (a = 0xE3 \<and> b = 0x80 \<and> c = 0x80)
                        then blank_bytes rest3 else False)"

text \<open>\<^verbatim>\<open>response_data.strip()\<close> is the empty string, hence false.\<close>

definition blank :: "string \<Rightarrow> bool" where
  "blank s = blank_bytes (map of_char s)"

text \<open>ASCII lower case, for the header lookup of \<^verbatim>\<open>http.client.HTTPMessage\<close>.\<close>

definition lower_char :: "char \<Rightarrow> char" where
  "lower_char c =
     (let n = (of_char c :: nat) in if 65 \<le> n \<and> n \<le> 90 then char_of (n + 32) else c)"

text \<open>
  \<^verbatim>\<open>response.headers[name]\<close>, with \<open>None\<close> for \<^verbatim>\<open>name not in response.headers\<close>:
  the first header whose name matches without regard to case.
\<close>

fun header_lookup :: "string \<Rightarrow> headers \<Rightarrow> string option" where
  "header_lookup name [] = None"
| "header_lookup name ((k, v) # rest) =
     (if map lower_char k = map lower_char name then Some v else header_lookup name rest)"

text \<open>\<^verbatim>\<open>d[k] = v\<close> on a dict kept as an association list.\<close>

fun dict_set :: "string \<Rightarrow> 'v \<Rightarrow> (string \<times> 'v) list \<Rightarrow> (string \<times> 'v) list" where
  "dict_set k v [] = [(k, v)]"
| "dict_set k v ((k', v') # rest) =
     (if k' = k then (k, v) # rest else (k', v') # dict_set k v rest)"

text \<open>
  \<^verbatim>\<open>dict(e.headers)\<close>: every header name in order of first appearance, each with the
  value the lookup gives for it.
\<close>

definition dict_of_headers :: "headers \<Rightarrow> (string \<times> json) list" where
  "dict_of_headers hs =
     foldl (\<lambda>d (k, _). dict_set k (case header_lookup k hs of Some v \<Rightarrow> JStr v | None \<Rightarrow> JNull) d)
       [] hs"

subsection \<open>Building the request\<close>

text \<open>
  Lines 55 to 68: the request object of one pass of the loop, and the value the variable
  \<^verbatim>\<open>data\<close> holds afterwards. A dict is serialised and gets a content type unless the
  caller's headers name one; a str is encoded; bytes left by an earlier pass are sent
  again as they are. A falsy \<^verbatim>\<open>data\<close> sends no body.
\<close>

definition payload_truthy :: "payload \<Rightarrow> bool" where
  "payload_truthy d =
     (case d of NoData \<Rightarrow> False | DictData kvs \<Rightarrow> kvs \<noteq> [] | StrData s \<Rightarrow> s \<noteq> []
      | BytesData b \<Rightarrow> b \<noteq> [])"

definition build_request :: "env \<Rightarrow> string \<Rightarrow> string \<Rightarrow> headers \<Rightarrow> payload \<Rightarrow> request \<times> payload" where
  "build_request env url method headers data =
     (let req = \<lparr>req_url = url, req_method = method, req_headers = headers, req_data = None\<rparr>
      in if payload_truthy data then
           (case data of
              DictData kvs \<Rightarrow>
                (let bytes = json_dumps env (JDict kvs);
                     req1 = (if map_of headers ''Content-Type'' = None
                             then req\<lparr>req_headers := headers @ [(''Content-Type'', ''application/json'')]\<rparr>
                             else req)
                 in (req1\<lparr>req_data := Some bytes\<rparr>, BytesData bytes))
            | StrData s \<Rightarrow> (req\<lparr>req_data := Some s\<rparr>, BytesData s)
            | BytesData b \<Rightarrow> (req\<lparr>req_data := Some b\<rparr>, BytesData b)
            | NoData \<Rightarrow> (req, NoData))
         else (req, data))"

subsection \<open>Decoding a body\<close>

text \<open>
  Lines 86 to 92 and again 100 to 106: a body with a character that is not white space
  is decoded, and wrapped under the key \<^verbatim>\<open>data\<close> when decoding raises
  \<^verbatim>\<open>JSONDecodeError\<close>, the one exception caught there; any other exception of the
  decoder leaves this code. A blank body gives the empty dict.
\<close>

definition decode_body :: "env \<Rightarrow> string \<Rightarrow> exc + json" where
  "decode_body env response_data =
     (if \<not> blank response_data then
        (case json_loads env response_data of
           Decoded v \<Rightarrow> Inr v
         | JSONDecodeError \<Rightarrow> Inr (JDict [(''data'', JStr response_data)])
         | LoadsRaises e \<Rightarrow> Inl e)
      else Inr (JDict []))"

text \<open>
  Lines 83 to 92: reading the body of a response that is not followed as a redirect. An
  exception of the read or of the decoder is neither \<^verbatim>\<open>HTTPError\<close> nor
  \<^verbatim>\<open>URLError\<close>, so it leaves \<^verbatim>\<open>make_request\<close> as it is.
\<close>

definition read_response :: "env \<Rightarrow> http_response \<Rightarrow> exc + json" where
  "read_response env resp =
     (case body resp of
        Text response_data \<Rightarrow> decode_body env response_data
      | ReadFails e \<Rightarrow> Inl e)"

text \<open>
  Lines 94 to 116. The body is decoded in the same way, inside a \<^verbatim>\<open>try\<close> whose bare
  \<^verbatim>\<open>except\<close> turns any exception of the read or of the decoder into the empty dict.
  The decoded body, the status and the headers are stored in the attribute
  \<^verbatim>\<open>response\<close> of the caught \<^verbatim>\<open>HTTPError\<close>; the exception raised is a new
  \<^verbatim>\<open>Exception\<close> with the status in its message, raised from the caught one.
\<close>

definition error_body :: "env \<Rightarrow> read_result \<Rightarrow> json" where
  "error_body env b =
     (case b of
        Text response_data \<Rightarrow>
          (case decode_body env response_data of Inr v \<Rightarrow> v | Inl e \<Rightarrow> JDict [])
      | ReadFails e \<Rightarrow> JDict [])"

definition http_error_object :: "env \<Rightarrow> int \<Rightarrow> string \<Rightarrow> headers \<Rightarrow> read_result \<Rightarrow> exc" where
  "http_error_object env code msg hs b =
     Exc ''HTTPError'' (''HTTP Error '' @ show_int code @ '': '' @ msg)
       (Some (JDict [(''status'', JInt code), (''data'', error_body env b),
                     (''headers'', JDict (dict_of_headers hs))]))
       None None"

definition on_http_error :: "env \<Rightarrow> int \<Rightarrow> string \<Rightarrow> headers \<Rightarrow> read_result \<Rightarrow> exc" where
  "on_http_error env code msg hs b =
     Exception_from (''Request failed with status '' @ show_int code)
       (http_error_object env code msg hs b)"

text \<open>Lines 118 and 119.\<close>

definition on_url_error :: "string \<Rightarrow> exc" where
  "on_url_error str_e =
     Exception_from (''Request failed: '' @ str_e) (Exc ''URLError'' str_e None None None)"

subsection \<open>\<^verbatim>\<open>urlopen\<close>\<close>

text \<open>
  \<^verbatim>\<open>HTTPRedirectHandler.http_error_302\<close> takes the new URL from the first
  \<^verbatim>\<open>location\<close> header, or else the first \<^verbatim>\<open>uri\<close> header.
\<close>

definition redirect_location :: "headers \<Rightarrow> string option" where
  "redirect_location hs =
     (case header_lookup ''location'' hs of
        Some v \<Rightarrow> Some v
      | None \<Rightarrow> header_lookup ''uri'' hs)"

text \<open>
  \<^verbatim>\<open>redirect_request\<close>: a redirect is followed for a GET or HEAD request, and for a
  POST request on 301, 302 and 303. The new request is a GET of the new URL without body,
  with the headers of the old one except the two content headers.
\<close>

definition redirect_allowed :: "int \<Rightarrow> string \<Rightarrow> bool" where
  "redirect_allowed code m =
     (code \<in> {301, 302, 303, 307, 308} \<and> (m = ''GET'' \<or> m = ''HEAD'') \<or>
      code \<in> {301, 302, 303} \<and> m = ''POST'')"

definition redirect_request :: "request \<Rightarrow> string \<Rightarrow> request" where
  "redirect_request req newurl =
     \<lparr>req_url = newurl, req_method = ''GET'',
      req_headers = filter (\<lambda>(k, v). map lower_char k \<notin> {''content-length'', ''content-type''})
                      (req_headers req),
      req_data = None\<rparr>"

text \<open>
  The \<^verbatim>\<open>redirect_dict\<close> of a request: how many times each URL has been the target
  of a redirect. \<^verbatim>\<open>max_repeats\<close> is 4 and \<^verbatim>\<open>max_redirections\<close> is 10.
\<close>

definition visits :: "(string \<times> nat) list \<Rightarrow> string \<Rightarrow> nat" where
  "visits visited url = (case map_of visited url of None \<Rightarrow> 0 | Some c \<Rightarrow> c)"

definition inf_msg :: string where
  "inf_msg = ''The HTTP server returned a redirect error that would lead to an infinite loop.'' @
             [CHR 0x0A] @ ''The last 30x error message was:'' @ [CHR 0x0A]"

text \<open>The redirects that can still be followed before one of the two limits is met.\<close>

definition budget :: "(string \<times> nat) list \<Rightarrow> nat" where
  "budget visited = (\<Sum>(k, c) \<leftarrow> visited. 4 - c) + 4 * (10 - length visited)"

text \<open>
  \<^verbatim>\<open>OpenerDirector.open\<close> with the default handlers, for a request whose
  \<^verbatim>\<open>redirect_dict\<close> is \<open>visited\<close>; \<open>n\<close> is the number of HTTP requests made before.
  A failure of the exchange is raised. An answer with a status from 200 to 299 is
  returned. An answer with status 301, 302, 303, 307 or 308 goes to
  \<^verbatim>\<open>http_error_302\<close>: without a location, or for a request that may not be redirected,
  \<^verbatim>\<open>HTTPError\<close> is raised with the answer; so it is when the scheme of the location is
  not allowed, and when the new URL has been visited 4 times or 10 URLs have been
  visited; otherwise the visit is counted and the new request is opened. Every other
  answer is raised as \<^verbatim>\<open>HTTPError\<close> by \<^verbatim>\<open>http_error_default\<close>. (The first redirect
  finds no \<^verbatim>\<open>redirect_dict\<close> and skips the test of the limits, which an empty dict
  passes.)
\<close>

function opener_open ::
  "env \<Rightarrow> request \<Rightarrow> (string \<times> nat) list \<Rightarrow> nat \<Rightarrow> outcome \<times> nat" where
  "opener_open env req visited n =
     (case http env n req of
        URLErrorRaised str_e \<Rightarrow> (RaisesURLError str_e, Suc n)
      | OtherRaised e \<Rightarrow> (RaisesOther e, Suc n)
      | Answer resp \<Rightarrow>
          if 200 \<le> status resp \<and> status resp < 300 then (Returns resp, Suc n)
          else if status resp \<in> {301, 302, 303, 307, 308} then
            (case redirect_location (hdrs resp) of
               None \<Rightarrow>
                 (RaisesHTTPError (status resp) (reason resp) (hdrs resp) (body resp), Suc n)
             | Some location \<Rightarrow>
                 if url_scheme env location \<notin> {''http'', ''https'', ''ftp'', []} then
                   (RaisesHTTPError (status resp)
                      (reason resp @ '' - Redirection to url '' @ quoted location @ '' is not allowed'')
                      (hdrs resp) (body resp), Suc n)
                 else if \<not> redirect_allowed (status resp) (req_method req) then
                   (RaisesHTTPError (status resp) (reason resp) (hdrs resp) (body resp), Suc n)
                 else if visits visited (url_resolve env (req_url req) location) \<ge> 4 \<or>
                         length visited \<ge> 10 then
                   (RaisesHTTPError (status resp) (inf_msg @ reason resp) (hdrs resp) (body resp),
                    Suc n)
                 else
                   opener_open env
                     (redirect_request req (url_resolve env (req_url req) location))
                     (dict_set (url_resolve env (req_url req) location)
                        (visits visited (url_resolve env (req_url req) location) + 1) visited)
                     (Suc n))
          else (RaisesHTTPError (status resp) (reason resp) (hdrs resp) (body resp), Suc n))"
  by pat_completeness auto
termination
proof (relation "measure (\<lambda>(env, req, visited, n). budget visited)")
  show "wf (measure (\<lambda>(env, req, visited, n). budget visited))"
    by simp
next
  fix env :: env and req :: request and visited :: "(string \<times> nat) list" and n :: nat
    and resp :: http_response and location :: string
  let ?url = "url_resolve env (req_url req) location"
  assume "\<not> (4 \<le> visits visited ?url \<or> 10 \<le> length visited)"
  then have few: "visits visited ?url < 4" and short: "length visited < 10"
    by simp_all
  have old: "\<And>c. map_of visited ?url = Some c \<Longrightarrow> c < 4 \<Longrightarrow>
        length (dict_set ?url (c + 1) visited) = length visited \<and>
        (\<Sum>(k, c) \<leftarrow> dict_set ?url (c + 1) visited. 4 - c) < (\<Sum>(k, c) \<leftarrow> visited. 4 - c)"
    by (induction visited) (auto split: if_splits)
  have new: "\<And>v. map_of visited ?url = None \<Longrightarrow>
        length (dict_set ?url v visited) = Suc (length visited) \<and>
        (\<Sum>(k, c) \<leftarrow> dict_set ?url v visited. 4 - c) = (\<Sum>(k, c) \<leftarrow> visited. 4 - c) + (4 - v)"
    by (induction visited) (auto split: if_splits)
  have "budget (dict_set ?url (visits visited ?url + 1) visited) < budget visited"
    using few short old new[of 1]
    by (cases "map_of visited ?url") (auto simp: visits_def budget_def)
  then show "((env, redirect_request req ?url,
               dict_set ?url (visits visited ?url + 1) visited, Suc n),
              (env, req, visited, n)) \<in> measure (\<lambda>(env, req, visited, n). budget visited)"
    by simp
qed

declare opener_open.simps [simp del]

text \<open>\<^verbatim>\<open>urlopen(req)\<close>: the request has no \<^verbatim>\<open>redirect_dict\<close> yet.\<close>

definition urlopen :: "env \<Rightarrow> request \<Rightarrow> nat \<Rightarrow> outcome \<times> nat" where
  "urlopen env req n = opener_open env req [] n"

subsection \<open>The loop\<close>

text \<open>Line 74: the target of a redirect, when the response is one the loop follows.\<close>

definition redirect_target :: "http_response \<Rightarrow> string option" where
  "redirect_target resp =
     (if 300 \<le> status resp \<and> status resp < 400 then header_lookup ''Location'' (hdrs resp)
      else None)"

text \<open>
  The \<^verbatim>\<open>while True\<close> loop of \<^verbatim>\<open>make_request\<close>, from a given value of
  \<^verbatim>\<open>redirect_count\<close>; \<open>n\<close> is the number of HTTP requests made before. The result is
  what is returned or raised, with the number of HTTP requests made after.
\<close>

function make_request_loop ::
  "env \<Rightarrow> string \<Rightarrow> string \<Rightarrow> headers \<Rightarrow> payload \<Rightarrow> int \<Rightarrow> int \<Rightarrow> nat \<Rightarrow> (exc + json) \<times> nat" where
  "make_request_loop env url method headers data max_redirects redirect_count n =
     (case urlopen env (fst (build_request env url method headers data)) n of
        (Returns resp, n') \<Rightarrow>
          (case redirect_target resp of
             Some location \<Rightarrow>
               if redirect_count \<ge> max_redirects then (Inl (Exception ''Too many redirects''), n')
               else make_request_loop env location method headers
                      (snd (build_request env url method headers data))
                      max_redirects (redirect_count + 1) n'
           | None \<Rightarrow> (read_response env resp, n'))
      | (RaisesHTTPError code msg hs b, n') \<Rightarrow> (Inl (on_http_error env code msg hs b), n')
      | (RaisesURLError str_e, n') \<Rightarrow> (Inl (on_url_error str_e), n')
      | (RaisesOther e, n') \<Rightarrow> (Inl e, n'))"
  by pat_completeness auto
termination
  by (relation "measure (\<lambda>(env, url, method, headers, data, max_redirects, redirect_count, n).
                   nat (max_redirects - redirect_count))") auto

declare make_request_loop.simps [simp del]

text \<open>
  \<^verbatim>\<open>make_request(url, method, headers, data, max_redirects)\<close>: \<^verbatim>\<open>headers=None\<close> is
  the empty dict, and the counter starts at 0.
\<close>

definition make_request ::
  "env \<Rightarrow> string \<Rightarrow> string \<Rightarrow> headers option \<Rightarrow> payload \<Rightarrow> int \<Rightarrow> state \<Rightarrow> (exc + json) \<times> state" where
  "make_request env url method headers data max_redirects s =
     (let (r, n) = make_request_loop env url method
                     (case headers of None \<Rightarrow> [] | Some h \<Rightarrow> h) data max_redirects 0 (requests s)
      in (r, s\<lparr>requests := n\<rparr>))"

section \<open>The update cycle\<close>

subsection \<open>Operations on a decoded value that can raise\<close>

text \<open>
  \<^verbatim>\<open>response[key]\<close> with a string key: the value of a dict, \<^verbatim>\<open>KeyError\<close> when the key
  is missing, \<^verbatim>\<open>TypeError\<close> on a value of any other type (wording of Python 3.11).
\<close>

definition subscript :: "json \<Rightarrow> string \<Rightarrow> exc + json" where
  "subscript v key =
     (case v of
        JDict kvs \<Rightarrow>
          (case map_of kvs key of
             Some x \<Rightarrow> Inr x
           | None \<Rightarrow> Inl (Exc ''KeyError'' (quoted key) None None None))
      | JList xs \<Rightarrow>
          Inl (Exc ''TypeError'' ''list indices must be integers or slices, not str'' None None None)
      | JStr s \<Rightarrow>
          Inl (Exc ''TypeError'' (''string indices must be integers, not '' @ quoted ''str'') None None None)
      | _ \<Rightarrow>
          Inl (Exc ''TypeError'' (quoted (type_name v) @ '' object is not subscriptable'')
                 None None None))"

text \<open>
  \<^verbatim>\<open>v.get(key, default)\<close>: only a dict has the method; on any other value the
  attribute lookup raises \<^verbatim>\<open>AttributeError\<close>.
\<close>

definition dict_get :: "json \<Rightarrow> string \<Rightarrow> json \<Rightarrow> exc + json" where
  "dict_get v key dflt =
     (case v of
        JDict kvs \<Rightarrow> Inr (case map_of kvs key of Some x \<Rightarrow> x | None \<Rightarrow> dflt)
      | _ \<Rightarrow> Inl (Exc ''AttributeError''
                   (quoted (type_name v) @ '' object has no attribute '' @ quoted ''get'')
                   None None None))"

subsection \<open>\<^verbatim>\<open>get_current_ip\<close>\<close>

definition get_current_ip :: "env \<Rightarrow> state \<Rightarrow> (exc + json) \<times> state" where
  "get_current_ip env s =
     (let handler = (\<lambda>error s'. (Inl (Exception ''Failed to detect IP address''),
                                  log_error env ''Failed to detect IP address'' error s'));
          s1 = log ''INFO'' ''Detecting public IP address...'' s
      in case make_request env (server_url env @ ''/api/ip'') ''GET'' None NoData 5 s1 of
           (Inl error, s2) \<Rightarrow> handler error s2
         | (Inr resp, s2) \<Rightarrow>
             (case subscript resp ''ip'' of
                Inl error \<Rightarrow> handler error s2
              | Inr ip \<Rightarrow>
                  (Inr ip, log ''INFO'' (''Successfully detected IP: '' @ py_str env ip) s2)))"

subsection \<open>\<^verbatim>\<open>update_dns\<close>\<close>

text \<open>
  Lines 150 to 155: what is logged for a response, or the exception the inspection of
  the response raises.
\<close>

definition report_update :: "env \<Rightarrow> json \<Rightarrow> json \<Rightarrow> state \<Rightarrow> exc + state" where
  "report_update env ip resp s =
     (case dict_get resp ''success'' JNull of
        Inl error \<Rightarrow> Inl error
      | Inr success \<Rightarrow>
          if truthy success then
            (case dict_get resp ''result'' (JDict []) of
               Inl error \<Rightarrow> Inl error
             | Inr result \<Rightarrow>
                 if truthy result then
                   (case dict_get result ''status'' JNull of
                      Inl error \<Rightarrow> Inl error
                    | Inr st \<Rightarrow>
                        if st = JStr ''unchanged''
                        then Inr (log ''INFO'' (''DNS record is already up-to-date ('' @ py_str env ip @ '')'') s)
                        else Inr (log ''INFO'' (''DNS record updated successfully to '' @ py_str env ip) s))
                 else Inr (log ''INFO'' (''DNS record updated successfully to '' @ py_str env ip) s))
          else Inr s)"

definition update_headers :: "env \<Rightarrow> headers" where
  "update_headers env =
     [(''Authorization'', ''Bearer '' @ token env), (''Content-Type'', ''application/json'')]"

definition update_dns :: "env \<Rightarrow> json \<Rightarrow> state \<Rightarrow> (exc + json) \<times> state" where
  "update_dns env ip s =
     (let handler = (\<lambda>error s'. (Inl error, log_error env ''Failed to update DNS record'' error s'));
          s1 = log ''INFO'' (''Updating DNS record for '' @ domain env @ '' to '' @ py_str env ip @ ''...'') s
      in case make_request env (server_url env @ ''/api/dns/update'') ''POST''
                (Some (update_headers env)) (DictData [(''ip'', ip)]) 5 s1 of
           (Inl error, s2) \<Rightarrow> handler error s2
         | (Inr resp, s2) \<Rightarrow>
             (case report_update env ip resp s2 of
                Inl error \<Rightarrow> handler error s2
              | Inr s3 \<Rightarrow> (Inr resp, s3)))"

subsection \<open>\<^verbatim>\<open>check_and_update_ip\<close>\<close>

text \<open>
  \<^verbatim>\<open>UPDATE_INTERVAL/60\<close> is a true division: with the interval of 300 seconds the
  f-string prints \<^verbatim>\<open>5.0\<close>.
\<close>

definition interval_minutes :: string where
  "interval_minutes = ''5.0''"

definition check_and_update_ip :: "env \<Rightarrow> state \<Rightarrow> (exc + unit) \<times> state" where
  "check_and_update_ip env s =
     (let handler = (\<lambda>error s'.
            (Inr (), log ''INFO'' (''Will retry in '' @ interval_minutes @ '' minutes'')
                       (log ''ERROR'' (''Update cycle failed: '' @ message error) s')))
      in case get_current_ip env s of
           (Inl error, s1) \<Rightarrow> handler error s1
         | (Inr current_ip, s1) \<Rightarrow>
             (case update_dns env current_ip s1 of
                (Inl error, s2) \<Rightarrow> handler error s2
              | (Inr result, s2) \<Rightarrow>
                  (Inr (), log ''INFO'' (''Next check scheduled at '' @ strftime_next env (requests s2)) s2)))"

subsection \<open>The main loop and the signal handler\<close>

text \<open>
  One pass of the \<^verbatim>\<open>while True\<close> loop of the main block: the cycle, then the sleep;
  the handler of the inner \<^verbatim>\<open>try\<close> logs the exception and sleeps as well.
\<close>

definition loop_pass :: "env \<Rightarrow> state \<Rightarrow> state" where
  "loop_pass env s =
     (case check_and_update_ip env s of
        (Inr u, s1) \<Rightarrow> sleep UPDATE_INTERVAL s1
      | (Inl e, s1) \<Rightarrow>
          sleep UPDATE_INTERVAL
            (log ''ERROR'' ''An unexpected error occurred. Client will attempt to continue...''
               (log_error env ''Uncaught exception'' e s1)))"

text \<open>
  The process is running, or has exited with a code. \<^verbatim>\<open>handle_signal\<close> logs two
  lines and calls \<^verbatim>\<open>sys.exit(0)\<close>.
\<close>

datatype process = Running state | Exited int state

definition handle_signal :: "state \<Rightarrow> process" where
  "handle_signal s =
     Exited 0 (log ''INFO'' ''DDNS client stopped''
                 (log ''INFO'' ''Received termination signal. Shutting down...'' s))"

text \<open>
  The step relation over cycles: a running process either completes one pass of the
  loop, or receives SIGINT or SIGTERM. An exited process takes no step.
\<close>

inductive step :: "env \<Rightarrow> process \<Rightarrow> process \<Rightarrow> bool" for env :: env where
  pass: "step env (Running s) (Running (loop_pass env s))"
| signal: "step env (Running s) (handle_signal s)"

code_pred step .

inductive steps :: "env \<Rightarrow> process \<Rightarrow> process \<Rightarrow> bool" for env :: env where
  here: "steps env p p"
| later: "steps env p q \<Longrightarrow> step env q r \<Longrightarrow> steps env p r"

text \<open>The durations of the sleeps in a trace, in order.\<close>

fun sleeps :: "event list \<Rightarrow> nat list" where
  "sleeps [] = []"
| "sleeps (Log level msg # es) = sleeps es"
| "sleeps (Sleep secs # es) = secs # sleeps es"

section \<open>Sample servers\<close>

text \<open>
  Concrete environments on which the theorems below are instantiated. \<open>sample_loads\<close>
  is \<^verbatim>\<open>json.loads\<close> on the handful of bodies the samples use: it raises
  \<^verbatim>\<open>RecursionError\<close> on a thousand opening brackets or more (\<open>deep_body\<close>), decodes
  five texts, and raises \<^verbatim>\<open>JSONDecodeError\<close> on every other text. The samples redirect to absolute URLs, which
  \<^verbatim>\<open>urljoin\<close> leaves as they are. \<open>scripted\<close> answers the HTTP requests from a list,
  then with a default.
\<close>

definition deep_body :: string where
  "deep_body = replicate 1000 (CHR ''['')"

definition sample_loads :: "string \<Rightarrow> loads_result" where
  \<open>sample_loads text =
     (if 1000 \<le> length text \<and> set text = {CHR ''[''}
        then LoadsRaises (Exc ''RecursionError''
               ''maximum recursion depth exceeded while decoding a JSON array from a unicode string''
               None None None)
      else if text = ''{"ip":"1.2.3.4"}'' then Decoded (JDict [(''ip'', JStr ''1.2.3.4'')])
      else if text = ''{"success":true,"result":{"status":"unchanged"}}''
        then Decoded (JDict [(''success'', JBool True),
                             (''result'', JDict [(''status'', JStr ''unchanged'')])])
      else if text = ''{"success":true,"result":{"status":"ok"}}''
        then Decoded (JDict [(''success'', JBool True),
                             (''result'', JDict [(''status'', JStr ''ok'')])])
      else if text = ''{"error":"db down"}'' then Decoded (JDict [(''error'', JStr ''db down'')])
      else if text = ''[]'' then Decoded (JList [])
      else JSONDecodeError)\<close>

definition sample_scheme :: "string \<Rightarrow> string" where
  "sample_scheme url =
     (if take 8 url = ''https://'' then ''https''
      else if take 7 url = ''http://'' then ''http'' else [])"

definition sample_env :: "(nat \<Rightarrow> request \<Rightarrow> exchange) \<Rightarrow> env" where
  \<open>sample_env server =
     \<lparr>http = server, url_scheme = sample_scheme, url_resolve = (\<lambda>base location. location),
      json_loads = sample_loads,
      json_dumps = (\<lambda>v. ''{"ip": "1.2.3.4"}''), py_repr = (\<lambda>v. ''?''),
      strftime_next = (\<lambda>n. ''12:05:00''), token = ''t0k3n'',
      server_url = ''https://ddns.example'', domain = ''home.example'', debug = False\<rparr>\<close>

definition scripted :: "exchange list \<Rightarrow> exchange \<Rightarrow> nat \<Rightarrow> request \<Rightarrow> exchange" where
  "scripted answers dflt n req = (if n < length answers then answers ! n else dflt)"

definition ok_response :: "string \<Rightarrow> exchange" where
  "ok_response text = Answer \<lparr>status = 200, reason = ''OK'', hdrs = [], body = Text text\<rparr>"

definition redirect_to :: "string \<Rightarrow> exchange" where
  "redirect_to loc =
     Answer \<lparr>status = 302, reason = ''Found'', hdrs = [(''Location'', loc)], body = Text []\<rparr>"

definition not_found :: exchange where
  "not_found = Answer \<lparr>status = 404, reason = ''Not Found'', hdrs = [], body = Text []\<rparr>"

definition connection_refused :: exchange where
  "connection_refused = URLErrorRaised ''<urlopen error [Errno 111] Connection refused>''"

definition db_down :: exchange where
  \<open>db_down = Answer \<lparr>status = 500, reason = ''Internal Server Error'',
                      hdrs = [(''Content-Type'', ''application/json'')],
                      body = Text ''{"error":"db down"}''\<rparr>\<close>

definition ip_body :: string where
  \<open>ip_body = ''{"ip":"1.2.3.4"}''\<close>

definition unchanged_body :: string where
  \<open>unchanged_body = ''{"success":true,"result":{"status":"unchanged"}}''\<close>

definition updated_body :: string where
  \<open>updated_body = ''{"success":true,"result":{"status":"ok"}}''\<close>

text \<open>
  A server that answers the address endpoint with a redirect, and the target of each
  redirect with the next, six times; the sixth target gives the address.
\<close>

definition six_hops :: "nat \<Rightarrow> request \<Rightarrow> exchange" where
  "six_hops n req =
     (if req_method req \<noteq> ''GET'' then not_found
      else if req_url req = ''https://ddns.example/api/ip'' then redirect_to ''https://ddns.example/hop1''
      else if req_url req = ''https://ddns.example/hop1'' then redirect_to ''https://ddns.example/hop2''
      else if req_url req = ''https://ddns.example/hop2'' then redirect_to ''https://ddns.example/hop3''
      else if req_url req = ''https://ddns.example/hop3'' then redirect_to ''https://ddns.example/hop4''
      else if req_url req = ''https://ddns.example/hop4'' then redirect_to ''https://ddns.example/hop5''
      else if req_url req = ''https://ddns.example/hop5'' then redirect_to ''https://ddns.example/hop6''
      else if req_url req = ''https://ddns.example/hop6'' then ok_response ip_body
      else not_found)"

text \<open>A server that answers every request with a redirect to a URL not seen before.\<close>

definition endless_hops :: "nat \<Rightarrow> request \<Rightarrow> exchange" where
  "endless_hops n req = redirect_to (req_url req @ ''/x'')"

definition s0 :: state where
  "s0 = \<lparr>requests = 0, trace = []\<rparr>"

section \<open>Evaluation lemmas\<close>

lemmas sample_defs =
  sample_env_def sample_loads_def sample_scheme_def scripted_def ok_response_def redirect_to_def
  not_found_def connection_refused_def db_down_def ip_body_def unchanged_body_def
  updated_body_def s0_def

lemmas cycle_defs =
  get_current_ip_def update_dns_def make_request_def make_request_loop.simps urlopen_def
  opener_open.simps build_request_def payload_truthy_def on_url_error_def on_http_error_def
  http_error_object_def error_body_def log_error_def log_def redirect_target_def
  read_response_def decode_body_def subscript_def dict_get_def report_update_def
  update_headers_def py_str_def quoted_def

lemma get_current_ip_refused:
  "get_current_ip (sample_env (scripted [] connection_refused)) s0 =
     (Inl (Exception ''Failed to detect IP address''),
      \<lparr>requests = 1,
       trace = [Log ''INFO'' ''Detecting public IP address...'',
                Log ''ERROR'' ''Failed to detect IP address: Request failed: <urlopen error [Errno 111] Connection refused>'']\<rparr>)"
  by (simp add: sample_defs cycle_defs)

section \<open>The cycle never raises\<close>

text \<open>
  C1. \<^verbatim>\<open>check_and_update_ip\<close> always returns normally. When \<^verbatim>\<open>get_current_ip\<close>
  raises, or when \<^verbatim>\<open>update_dns\<close> raises, it appends the line
  \<^verbatim>\<open>Update cycle failed: <error>\<close> and the notice \<^verbatim>\<open>Will retry in 5.0 minutes\<close> to
  what these have logged, and does nothing else; the pass of the main loop then goes
  on to its sleep of \<^verbatim>\<open>UPDATE_INTERVAL\<close> seconds.
\<close>

theorem check_and_update_ip_never_raises:
  "(\<exists>s'. check_and_update_ip env s = (Inr (), s')) \<and>
   (\<forall>error s1. get_current_ip env s = (Inl error, s1) \<longrightarrow>
      check_and_update_ip env s =
        (Inr (), s1\<lparr>trace := trace s1 @
                      [Log ''ERROR'' (''Update cycle failed: '' @ message error),
                       Log ''INFO'' ''Will retry in 5.0 minutes'']\<rparr>)) \<and>
   (\<forall>ip s1 error s2.
      get_current_ip env s = (Inr ip, s1) \<and> update_dns env ip s1 = (Inl error, s2) \<longrightarrow>
      check_and_update_ip env s =
        (Inr (), s2\<lparr>trace := trace s2 @
                      [Log ''ERROR'' (''Update cycle failed: '' @ message error),
                       Log ''INFO'' ''Will retry in 5.0 minutes'']\<rparr>)) \<and>
   loop_pass env s = sleep UPDATE_INTERVAL (snd (check_and_update_ip env s))"
  by (auto simp: check_and_update_ip_def loop_pass_def log_def interval_minutes_def
           split: prod.splits sum.splits)

theorem check_and_update_ip_never_raises_witness:
  "check_and_update_ip (sample_env (scripted [] connection_refused)) s0 =
     (Inr (),
      \<lparr>requests = 1,
       trace = [Log ''INFO'' ''Detecting public IP address...'',
                Log ''ERROR'' ''Failed to detect IP address: Request failed: <urlopen error [Errno 111] Connection refused>'',
                Log ''ERROR'' ''Update cycle failed: Failed to detect IP address'',
                Log ''INFO'' ''Will retry in 5.0 minutes'']\<rparr>)"
  using check_and_update_ip_never_raises
          [of "sample_env (scripted [] connection_refused)" s0]
        get_current_ip_refused
  by simp

section \<open>Redirects\<close>

text \<open>
  \<^verbatim>\<open>urlopen\<close> hands back only answers with a status from 200 to 299: it follows a
  redirect itself and raises every other answer. So the test of line 74 never holds,
  the loop of \<^verbatim>\<open>make_request\<close> makes one call of \<^verbatim>\<open>urlopen\<close>, and neither
  \<^verbatim>\<open>redirect_count\<close> nor \<^verbatim>\<open>max_redirects\<close> has any effect.
\<close>

lemma opener_open_returns_success:
  "opener_open env req visited n = (Returns resp, n') \<Longrightarrow>
     200 \<le> status resp \<and> status resp < 300"
proof (induction env req visited n rule: opener_open.induct)
  case (1 env req visited n)
  from "1.prems" show ?case
    by (subst (asm) opener_open.simps)
       (auto split: exchange.splits option.splits if_splits dest: "1.IH")
qed

lemma urlopen_no_redirect_target:
  "urlopen env req n = (Returns resp, n') \<Longrightarrow> redirect_target resp = None"
  using opener_open_returns_success [of env req "[]" n resp n']
  by (simp add: urlopen_def redirect_target_def)

lemma make_request_loop_once:
  "make_request_loop env url meth headers data max_redirects redirect_count n =
     (case urlopen env (fst (build_request env url meth headers data)) n of
        (Returns resp, n') \<Rightarrow> (read_response env resp, n')
      | (RaisesHTTPError code msg hs b, n') \<Rightarrow> (Inl (on_http_error env code msg hs b), n')
      | (RaisesURLError str_e, n') \<Rightarrow> (Inl (on_url_error str_e), n')
      | (RaisesOther e, n') \<Rightarrow> (Inl e, n'))"
  by (subst make_request_loop.simps)
     (auto split: prod.splits outcome.splits option.splits dest: urlopen_no_redirect_target)

lemma make_request_ignores_cap:
  "make_request env url meth headers data max_redirects s =
   make_request env url meth headers data 0 s"
  by (simp add: make_request_def make_request_loop_once)

text \<open>
  The HTTP requests of one call are bounded by the two limits of \<^verbatim>\<open>urllib\<close>, not by
  the cap: a redirect is followed only while fewer than 10 URLs have been visited and
  the target fewer than 4 times.
\<close>

lemma budget_step:
  assumes "visits visited url < 4" and "length visited < 10"
  shows "budget (dict_set url (visits visited url + 1) visited) < budget visited"
proof -
  have old: "\<And>c. map_of visited url = Some c \<Longrightarrow> c < 4 \<Longrightarrow>
        length (dict_set url (c + 1) visited) = length visited \<and>
        (\<Sum>(k, c) \<leftarrow> dict_set url (c + 1) visited. 4 - c) < (\<Sum>(k, c) \<leftarrow> visited. 4 - c)"
    by (induction visited) (auto split: if_splits)
  have new: "\<And>v. map_of visited url = None \<Longrightarrow>
        length (dict_set url v visited) = Suc (length visited) \<and>
        (\<Sum>(k, c) \<leftarrow> dict_set url v visited. 4 - c) = (\<Sum>(k, c) \<leftarrow> visited. 4 - c) + (4 - v)"
    by (induction visited) (auto split: if_splits)
  show ?thesis
    using assms old new[of 1]
    by (cases "map_of visited url") (auto simp: visits_def budget_def)
qed

lemma opener_open_bound:
  "opener_open env req visited n = (r, n') \<Longrightarrow> n < n' \<and> n' \<le> n + budget visited + 1"
proof (induction env req visited n arbitrary: r n' rule: opener_open.induct)
  case (1 env req visited n)
  show ?case
  proof (cases "http env n req")
    case (URLErrorRaised str_e)
    with "1.prems" show ?thesis by (simp add: opener_open.simps)
  next
    case (OtherRaised e)
    with "1.prems" show ?thesis by (simp add: opener_open.simps)
  next
    case (Answer resp)
    show ?thesis
    proof (cases "\<exists>location. \<not> (200 \<le> status resp \<and> status resp < 300) \<and>
                    status resp \<in> {301, 302, 303, 307, 308} \<and>
                    redirect_location (hdrs resp) = Some location \<and>
                    \<not> url_scheme env location \<notin> {''http'', ''https'', ''ftp'', []} \<and>
                    \<not> \<not> redirect_allowed (status resp) (req_method req) \<and>
                    \<not> (4 \<le> visits visited (url_resolve env (req_url req) location) \<or>
                        10 \<le> length visited)")
      case True
      then obtain location where
        c: "\<not> (200 \<le> status resp \<and> status resp < 300)"
           "status resp \<in> {301, 302, 303, 307, 308}"
           "redirect_location (hdrs resp) = Some location"
           "\<not> url_scheme env location \<notin> {''http'', ''https'', ''ftp'', []}"
           "\<not> \<not> redirect_allowed (status resp) (req_method req)"
           "\<not> (4 \<le> visits visited (url_resolve env (req_url req) location) \<or> 10 \<le> length visited)"
        by blast
      let ?url = "url_resolve env (req_url req) location"
      from "1.prems" Answer c
      have rec: "opener_open env (redirect_request req ?url)
                   (dict_set ?url (visits visited ?url + 1) visited) (Suc n) = (r, n')"
        by (subst (asm) opener_open.simps) simp
      from c(6) have "budget (dict_set ?url (visits visited ?url + 1) visited) < budget visited"
        by (intro budget_step) simp_all
      with "1.IH" [OF Answer c rec] show ?thesis
        by linarith
    next
      case False
      with "1.prems" Answer show ?thesis
        by (subst (asm) opener_open.simps) (auto split: option.splits if_splits)
    qed
  qed
qed

lemma make_request_requests_bound:
  "make_request env url meth headers data max_redirects s = (r, s') \<Longrightarrow>
     requests s < requests s' \<and> requests s' \<le> requests s + 41 \<and> trace s' = trace s"
proof -
  assume m: "make_request env url meth headers data max_redirects s = (r, s')"
  obtain out n' where
    u: "urlopen env (fst (build_request env url meth (case headers of None \<Rightarrow> [] | Some h \<Rightarrow> h) data))
          (requests s) = (out, n')"
    by (cases "urlopen env (fst (build_request env url meth
                 (case headers of None \<Rightarrow> [] | Some h \<Rightarrow> h) data)) (requests s)")
  from u have "requests s < n' \<and> n' \<le> requests s + budget [] + 1"
    unfolding urlopen_def by (rule opener_open_bound)
  moreover have "budget [] = 40"
    by (simp add: budget_def)
  moreover from m u have "s' = s\<lparr>requests := n'\<rparr>"
    by (auto simp: make_request_def make_request_loop_once split: outcome.splits)
  ultimately show ?thesis by simp
qed

text \<open>
  C2, evaluated where the address endpoint answers with a chain of six redirects
  (status 302 with a \<^verbatim>\<open>Location\<close> header, each to a new URL) and the sixth target
  answers 200 with the address. With the default cap of 5, \<^verbatim>\<open>make_request\<close> does not
  raise \<^verbatim>\<open>Too many redirects\<close>: the seven HTTP requests are made inside the one call
  of \<^verbatim>\<open>urlopen\<close>, and the decoded body is returned; \<^verbatim>\<open>get_current_ip\<close> returns the
  address.
\<close>

theorem make_request_six_redirects_cap_five:
  "make_request (sample_env six_hops) ''https://ddns.example/api/ip'' ''GET'' None NoData 5 s0 =
     (Inr (JDict [(''ip'', JStr ''1.2.3.4'')]), \<lparr>requests = 7, trace = []\<rparr>) \<and>
   get_current_ip (sample_env six_hops) s0 =
     (Inr (JStr ''1.2.3.4''),
      \<lparr>requests = 7,
       trace = [Log ''INFO'' ''Detecting public IP address...'',
                Log ''INFO'' ''Successfully detected IP: 1.2.3.4'']\<rparr>)"
  by code_simp

text \<open>
  C9, evaluated where every request is answered with a redirect to a URL not seen
  before. With the default cap of 5, eleven HTTP requests are made, more than
  \<^verbatim>\<open>max_redirects + 1\<close>: \<^verbatim>\<open>urlopen\<close> follows ten redirects and raises \<^verbatim>\<open>HTTPError\<close> at
  the eleventh answer, and \<^verbatim>\<open>make_request\<close> raises \<^verbatim>\<open>Request failed with status 302\<close>
  with its counter still at 0.
\<close>

theorem make_request_endless_redirects_requests:
  "make_request (sample_env endless_hops) ''https://ddns.example/api/ip'' ''GET'' None NoData 5 s0 =
     (Inl (Exc ''Exception'' ''Request failed with status 302'' None None
            (Some (Exc ''HTTPError'' (''HTTP Error 302: '' @ inf_msg @ ''Found'')
                    (Some (JDict [(''status'', JInt 302), (''data'', JDict []),
                                  (''headers'',
                                   JDict [(''Location'',
                                           JStr ''https://ddns.example/api/ip/x/x/x/x/x/x/x/x/x/x/x'')])]))
                    None None))),
      \<lparr>requests = 11, trace = []\<rparr>)"
  by code_simp

section \<open>Decoding the body\<close>

lemma make_request_returned:
  "urlopen env
     (fst (build_request env url meth (case headers of None \<Rightarrow> [] | Some h \<Rightarrow> h) data))
     (requests s) = (Returns resp, n') \<Longrightarrow>
   make_request env url meth headers data max_redirects s =
     (read_response env resp, s\<lparr>requests := n'\<rparr>)"
  by (simp add: make_request_def make_request_loop_once)

lemma sample_loads_deep:
  "sample_loads deep_body =
     LoadsRaises (Exc ''RecursionError''
       ''maximum recursion depth exceeded while decoding a JSON array from a unicode string''
       None None None)"
  by (simp add: sample_loads_def deep_body_def)

lemma deep_body_not_blank: "\<not> blank deep_body"
proof -
  have "(1000::nat) = Suc (Suc (Suc 997))"
    by simp
  then have eq: "deep_body = CHR ''['' # CHR ''['' # CHR ''['' # replicate 997 (CHR ''['')"
    unfolding deep_body_def by (simp only: replicate_Suc)
  show ?thesis
    unfolding eq blank_def by simp
qed

text \<open>
  C3, as the code has it. For a response that \<^verbatim>\<open>urlopen\<close> returns and whose body
  reads as \<open>text\<close>: when \<open>text\<close> has a character that is not white space, the helper
  returns the decoded value if \<^verbatim>\<open>json.loads\<close> decodes \<open>text\<close>, returns
  \<^verbatim>\<open>{"data": text}\<close> if \<^verbatim>\<open>json.loads\<close> raises \<^verbatim>\<open>JSONDecodeError\<close>, and raises any
  other exception of \<^verbatim>\<open>json.loads\<close>; when \<open>text\<close> is empty or all white space, it
  returns the empty dict.
\<close>

theorem make_request_decodes_body:
  assumes "urlopen env
             (fst (build_request env url method (case headers of None \<Rightarrow> [] | Some h \<Rightarrow> h) data))
             (requests s) = (Returns resp, n')"
    and "body resp = Text text"
  shows "(\<forall>v. \<not> blank text \<and> json_loads env text = Decoded v \<longrightarrow>
            fst (make_request env url method headers data max_redirects s) = Inr v) \<and>
         (\<not> blank text \<and> json_loads env text = JSONDecodeError \<longrightarrow>
            fst (make_request env url method headers data max_redirects s) =
              Inr (JDict [(''data'', JStr text)])) \<and>
         (\<forall>e. \<not> blank text \<and> json_loads env text = LoadsRaises e \<longrightarrow>
            fst (make_request env url method headers data max_redirects s) = Inl e) \<and>
         (blank text \<longrightarrow>
            fst (make_request env url method headers data max_redirects s) = Inr (JDict []))"
  using make_request_returned [OF assms(1)] assms(2)
  by (simp add: read_response_def decode_body_def)

lemma urlopen_ok_response:
  "urlopen (sample_env (scripted [] (ok_response text)))
     (fst (build_request (sample_env (scripted [] (ok_response text)))
             ''https://ddns.example/api/ip'' ''GET'' (case None of None \<Rightarrow> [] | Some h \<Rightarrow> h) NoData))
     (requests s0) =
   (Returns \<lparr>status = 200, reason = ''OK'', hdrs = [], body = Text text\<rparr>, 1)"
  by (simp add: sample_env_def scripted_def ok_response_def s0_def urlopen_def opener_open.simps
        build_request_def payload_truthy_def)

theorem make_request_decodes_body_witness:
  "fst (make_request (sample_env (scripted [] (ok_response ip_body)))
          ''https://ddns.example/api/ip'' ''GET'' None NoData 5 s0) =
     Inr (JDict [(''ip'', JStr ''1.2.3.4'')]) \<and>
   fst (make_request (sample_env (scripted [] (ok_response ''<html>busy</html>'')))
          ''https://ddns.example/api/ip'' ''GET'' None NoData 5 s0) =
     Inr (JDict [(''data'', JStr ''<html>busy</html>'')]) \<and>
   fst (make_request (sample_env (scripted [] (ok_response deep_body)))
          ''https://ddns.example/api/ip'' ''GET'' None NoData 5 s0) =
     Inl (Exc ''RecursionError''
            ''maximum recursion depth exceeded while decoding a JSON array from a unicode string''
            None None None) \<and>
   fst (make_request (sample_env (scripted [] (ok_response [CHR 0xE3, CHR 0x80, CHR 0x80, CHR 0x0A])))
          ''https://ddns.example/api/ip'' ''GET'' None NoData 5 s0) = Inr (JDict [])"
proof -
  have body: "\<And>text. body \<lparr>status = 200, reason = ''OK'', hdrs = [], body = Text text\<rparr> = Text text"
    by simp
  have loads: "\<And>server. json_loads (sample_env server) = sample_loads"
    by (simp add: sample_env_def)
  have l1: "sample_loads ip_body = Decoded (JDict [(''ip'', JStr ''1.2.3.4'')])"
    and l2: "sample_loads ''<html>busy</html>'' = JSONDecodeError"
    by (simp_all add: sample_loads_def ip_body_def)
  have b1: "\<not> blank ip_body" and b2: "\<not> blank ''<html>busy</html>''"
    and b4: "blank [CHR 0xE3, CHR 0x80, CHR 0x80, CHR 0x0A]"
    by (simp_all add: blank_def ip_body_def)
  note inst = make_request_decodes_body [OF urlopen_ok_response body, of _ 5]
  have "fst (make_request (sample_env (scripted [] (ok_response ip_body)))
          ''https://ddns.example/api/ip'' ''GET'' None NoData 5 s0) =
        Inr (JDict [(''ip'', JStr ''1.2.3.4'')])"
    using inst [of ip_body] b1 l1 by (simp add: loads)
  moreover
  have "fst (make_request (sample_env (scripted [] (ok_response ''<html>busy</html>'')))
          ''https://ddns.example/api/ip'' ''GET'' None NoData 5 s0) =
        Inr (JDict [(''data'', JStr ''<html>busy</html>'')])"
    using inst [of "''<html>busy</html>''"] b2 l2 by (simp add: loads)
  moreover
  have "fst (make_request (sample_env (scripted [] (ok_response deep_body)))
          ''https://ddns.example/api/ip'' ''GET'' None NoData 5 s0) =
        Inl (Exc ''RecursionError''
            ''maximum recursion depth exceeded while decoding a JSON array from a unicode string''
            None None None)"
    using inst [of deep_body] deep_body_not_blank sample_loads_deep by (simp add: loads)
  moreover
  have "fst (make_request (sample_env (scripted [] (ok_response [CHR 0xE3, CHR 0x80, CHR 0x80, CHR 0x0A])))
          ''https://ddns.example/api/ip'' ''GET'' None NoData 5 s0) = Inr (JDict [])"
    using inst [of "[CHR 0xE3, CHR 0x80, CHR 0x80, CHR 0x0A]"] b4 by simp
  ultimately show ?thesis by simp
qed

text \<open>
  C3 as stated fails on a body that is not empty but blank: a single space is rejected
  by the decoder, and the helper returns the empty dict, not the wrapper around the
  space.
\<close>

theorem make_request_blank_body_counterexample:
  "'' '' \<noteq> [] \<and>
   json_loads (sample_env (scripted [] (ok_response '' ''))) '' '' = JSONDecodeError \<and>
   fst (make_request (sample_env (scripted [] (ok_response '' '')))
          ''https://ddns.example/api/ip'' ''GET'' None NoData 5 s0) = Inr (JDict []) \<and>
   fst (make_request (sample_env (scripted [] (ok_response '' '')))
          ''https://ddns.example/api/ip'' ''GET'' None NoData 5 s0) \<noteq>
     Inr (JDict [(''data'', JStr '' '')])"
  by (simp add: sample_defs cycle_defs blank_def)

section \<open>HTTP error statuses\<close>

text \<open>
  What the helper raises when \<^verbatim>\<open>urlopen\<close> raises \<^verbatim>\<open>HTTPError\<close>, for any status, body
  and headers: the message has the status; the decoded body, the status and the headers
  are in the \<^verbatim>\<open>response\<close> attribute of the cause, and the exception raised has no such
  attribute, so that \<^verbatim>\<open>log_error\<close> prints one line for it.
\<close>

lemma make_request_http_error:
  assumes "urlopen env
             (fst (build_request env url method (case headers of None \<Rightarrow> [] | Some h \<Rightarrow> h) data))
             (requests s) = (RaisesHTTPError code msg hs b, n')"
  shows "make_request env url method headers data max_redirects s =
           (Inl (on_http_error env code msg hs b), s\<lparr>requests := n'\<rparr>)"
    and "message (on_http_error env code msg hs b) = ''Request failed with status '' @ show_int code"
    and "response (on_http_error env code msg hs b) = None"
    and "\<exists>e. cause (on_http_error env code msg hs b) = Some e \<and>
             response e =
               Some (JDict [(''status'', JInt code), (''data'', error_body env b),
                            (''headers'', JDict (dict_of_headers hs))])"
  using assms
  by (simp_all add: make_request_def make_request_loop.simps on_http_error_def http_error_object_def)

lemma log_error_without_response:
  "response error = None \<Longrightarrow> traceback error = None \<Longrightarrow>
   log_error env ctxt error s = log ''ERROR'' (ctxt @ '': '' @ message error) s"
  by (simp add: log_error_def)

text \<open>
  C4, evaluated where the update endpoint answers 500 with the body
  \<^verbatim>\<open>{"error":"db down"}\<close>. The exception that \<^verbatim>\<open>make_request\<close> raises has the status
  in its message and no \<^verbatim>\<open>response\<close> attribute: the status, the decoded body and
  the headers are on the \<^verbatim>\<open>HTTPError\<close> it was raised from. \<^verbatim>\<open>update_dns\<close> re-raises it,
  and \<^verbatim>\<open>log_error\<close>, which looks for the attribute on the exception it is given,
  prints no \<^verbatim>\<open>Server response\<close> line.
\<close>

theorem make_request_http_500_raised_error:
  "make_request (sample_env (scripted [] db_down)) ''https://ddns.example/api/dns/update'' ''POST''
     (Some (update_headers (sample_env (scripted [] db_down))))
     (DictData [(''ip'', JStr ''1.2.3.4'')]) 5 s0 =
   (Inl (Exc ''Exception'' ''Request failed with status 500'' None None
          (Some (Exc ''HTTPError'' ''HTTP Error 500: Internal Server Error''
                  (Some (JDict [(''status'', JInt 500),
                                (''data'', JDict [(''error'', JStr ''db down'')]),
                                (''headers'', JDict [(''Content-Type'', JStr ''application/json'')])]))
                  None None))),
    \<lparr>requests = 1, trace = []\<rparr>) \<and>
   update_dns (sample_env (scripted [] db_down)) (JStr ''1.2.3.4'') s0 =
   (Inl (Exc ''Exception'' ''Request failed with status 500'' None None
          (Some (Exc ''HTTPError'' ''HTTP Error 500: Internal Server Error''
                  (Some (JDict [(''status'', JInt 500),
                                (''data'', JDict [(''error'', JStr ''db down'')]),
                                (''headers'', JDict [(''Content-Type'', JStr ''application/json'')])]))
                  None None))),
    \<lparr>requests = 1,
     trace = [Log ''INFO'' ''Updating DNS record for home.example to 1.2.3.4...'',
              Log ''ERROR'' ''Failed to update DNS record: Request failed with status 500'']\<rparr>)"
  by code_simp

section \<open>Detecting the address\<close>





lemma subscript_missing:
  "(\<forall>kvs. resp = JDict kvs \<longrightarrow> map_of kvs key = None) \<Longrightarrow> \<exists>e. subscript resp key = Inl e"
  by (cases resp) (auto simp: subscript_def)

lemma subscript_present:
  "subscript resp key = Inr v \<longleftrightarrow> (\<exists>kvs. resp = JDict kvs \<and> map_of kvs key = Some v)"
  by (cases resp) (auto simp: subscript_def split: option.splits)

text \<open>
  C10. When the request succeeds and the decoded response has no \<^verbatim>\<open>ip\<close> field (it is
  a dict without that key, or not a dict at all), \<^verbatim>\<open>get_current_ip\<close> raises the same
  fixed exception.
\<close>

theorem get_current_ip_missing_ip_field:
  assumes "make_request env (server_url env @ ''/api/ip'') ''GET'' None NoData 5
             (log ''INFO'' ''Detecting public IP address...'' s) = (Inr resp, s1)"
    and "\<forall>kvs. resp = JDict kvs \<longrightarrow> map_of kvs ''ip'' = None"
  shows "fst (get_current_ip env s) = Inl (Exception ''Failed to detect IP address'')"
  using assms(1) subscript_missing[OF assms(2)]
  by (auto simp: get_current_ip_def split: prod.splits sum.splits)

lemma request_html:
  "make_request (sample_env (scripted [ok_response ''<html>busy</html>''] dflt))
     (server_url (sample_env (scripted [ok_response ''<html>busy</html>''] dflt)) @ ''/api/ip'')
     ''GET'' None NoData 5 (log ''INFO'' ''Detecting public IP address...'' s0) =
   (Inr (JDict [(''data'', JStr ''<html>busy</html>'')]),
    \<lparr>requests = 1, trace = [Log ''INFO'' ''Detecting public IP address...'']\<rparr>)"
  by (simp add: sample_defs cycle_defs blank_def)

theorem get_current_ip_missing_ip_field_witness:
  "fst (get_current_ip (sample_env (scripted [ok_response ''<html>busy</html>''] connection_refused)) s0) =
     Inl (Exception ''Failed to detect IP address'')"
proof -
  have no_ip: "\<forall>kvs. JDict [(''data'', JStr ''<html>busy</html>'')] = JDict kvs \<longrightarrow>
                 map_of kvs ''ip'' = None"
    by simp
  show ?thesis
    using get_current_ip_missing_ip_field [OF request_html [of connection_refused] no_ip] .
qed

section \<open>Updating the record\<close>

text \<open>
  C6. An exception raised by the request helper inside \<^verbatim>\<open>update_dns\<close> is logged and
  raised again as the same value; so is an exception raised while the response is
  inspected.
\<close>

theorem update_dns_reraises_unmodified:
  "(\<forall>error s2.
      make_request env (server_url env @ ''/api/dns/update'') ''POST'' (Some (update_headers env))
        (DictData [(''ip'', ip)]) 5
        (log ''INFO'' (''Updating DNS record for '' @ domain env @ '' to '' @ py_str env ip @ ''...'') s)
        = (Inl error, s2) \<longrightarrow>
      update_dns env ip s = (Inl error, log_error env ''Failed to update DNS record'' error s2)) \<and>
   (\<forall>resp s2 error.
      make_request env (server_url env @ ''/api/dns/update'') ''POST'' (Some (update_headers env))
        (DictData [(''ip'', ip)]) 5
        (log ''INFO'' (''Updating DNS record for '' @ domain env @ '' to '' @ py_str env ip @ ''...'') s)
        = (Inr resp, s2) \<and> report_update env ip resp s2 = Inl error \<longrightarrow>
      update_dns env ip s = (Inl error, log_error env ''Failed to update DNS record'' error s2))"
  by (auto simp: update_dns_def split: prod.splits sum.splits)

lemma update_request_500:
  "make_request (sample_env (scripted [] db_down))
     (server_url (sample_env (scripted [] db_down)) @ ''/api/dns/update'') ''POST''
     (Some (update_headers (sample_env (scripted [] db_down))))
     (DictData [(''ip'', JStr ''1.2.3.4'')]) 5
     (log ''INFO'' (''Updating DNS record for '' @ domain (sample_env (scripted [] db_down)) @
                    '' to '' @ py_str (sample_env (scripted [] db_down)) (JStr ''1.2.3.4'') @ ''...'') s0) =
   (Inl (Exc ''Exception'' ''Request failed with status 500'' None None
          (Some (Exc ''HTTPError'' ''HTTP Error 500: Internal Server Error''
                  (Some (JDict [(''status'', JInt 500),
                                (''data'', JDict [(''error'', JStr ''db down'')]),
                                (''headers'', JDict [(''Content-Type'', JStr ''application/json'')])]))
                  None None))),
    \<lparr>requests = 1,
     trace = [Log ''INFO'' ''Updating DNS record for home.example to 1.2.3.4...'']\<rparr>)"
  by code_simp

theorem update_dns_reraises_unmodified_witness:
  "update_dns (sample_env (scripted [] db_down)) (JStr ''1.2.3.4'') s0 =
   (Inl (Exc ''Exception'' ''Request failed with status 500'' None None
          (Some (Exc ''HTTPError'' ''HTTP Error 500: Internal Server Error''
                  (Some (JDict [(''status'', JInt 500),
                                (''data'', JDict [(''error'', JStr ''db down'')]),
                                (''headers'', JDict [(''Content-Type'', JStr ''application/json'')])]))
                  None None))),
    log_error (sample_env (scripted [] db_down)) ''Failed to update DNS record''
      (Exc ''Exception'' ''Request failed with status 500'' None None
          (Some (Exc ''HTTPError'' ''HTTP Error 500: Internal Server Error''
                  (Some (JDict [(''status'', JInt 500),
                                (''data'', JDict [(''error'', JStr ''db down'')]),
                                (''headers'', JDict [(''Content-Type'', JStr ''application/json'')])]))
                  None None)))
      \<lparr>requests = 1,
       trace = [Log ''INFO'' ''Updating DNS record for home.example to 1.2.3.4...'']\<rparr>)"
  using update_dns_reraises_unmodified [of "sample_env (scripted [] db_down)" "JStr ''1.2.3.4''" s0] update_request_500
  by blast

text \<open>
  C7, as the code has it. When the request helper returns a JSON object, \<^verbatim>\<open>update_dns\<close>
  returns that object unchanged in each of these cases: \<^verbatim>\<open>success\<close> is truthy and
  \<^verbatim>\<open>result\<close> is an object whose \<^verbatim>\<open>status\<close> is \<^verbatim>\<open>"unchanged"\<close> (it logs that the
  record is already up-to-date); \<^verbatim>\<open>success\<close> is truthy and \<^verbatim>\<open>result\<close> is an object with
  any other status or none, or is absent or falsy (it logs that the record was updated
  successfully); \<^verbatim>\<open>success\<close> is absent or falsy (it logs nothing more). And whenever
  \<^verbatim>\<open>update_dns\<close> returns, it returns the response of the helper.
\<close>

theorem update_dns_returns_response_and_logs:
  assumes "make_request env (server_url env @ ''/api/dns/update'') ''POST'' (Some (update_headers env))
        (DictData [(''ip'', ip)]) 5
        (log ''INFO'' (''Updating DNS record for '' @ domain env @ '' to '' @ py_str env ip @ ''...'') s)
        = (Inr (JDict kvs), s2)"
  shows "(\<forall>success result.
            map_of kvs ''success'' = Some success \<and> truthy success \<and>
            map_of kvs ''result'' = Some (JDict result) \<and>
            map_of result ''status'' = Some (JStr ''unchanged'') \<longrightarrow>
            update_dns env ip s =
              (Inr (JDict kvs),
               log ''INFO'' (''DNS record is already up-to-date ('' @ py_str env ip @ '')'') s2)) \<and>
         (\<forall>success result.
            map_of kvs ''success'' = Some success \<and> truthy success \<and>
            map_of kvs ''result'' = Some (JDict result) \<and>
            map_of result ''status'' \<noteq> Some (JStr ''unchanged'') \<longrightarrow>
            update_dns env ip s =
              (Inr (JDict kvs),
               log ''INFO'' (''DNS record updated successfully to '' @ py_str env ip) s2)) \<and>
         (\<forall>success.
            map_of kvs ''success'' = Some success \<and> truthy success \<and>
            (\<forall>result. map_of kvs ''result'' = Some result \<longrightarrow> \<not> truthy result) \<longrightarrow>
            update_dns env ip s =
              (Inr (JDict kvs),
               log ''INFO'' (''DNS record updated successfully to '' @ py_str env ip) s2)) \<and>
         ((\<forall>success. map_of kvs ''success'' = Some success \<longrightarrow> \<not> truthy success) \<longrightarrow>
            update_dns env ip s = (Inr (JDict kvs), s2)) \<and>
         (\<forall>v s'. update_dns env ip s = (Inr v, s') \<longrightarrow> v = JDict kvs)"
  using assms
  by (auto simp: update_dns_def report_update_def dict_get_def
           split: prod.splits sum.splits option.splits json.splits if_splits)

lemma update_request_unchanged:
  "make_request (sample_env (scripted [] (ok_response unchanged_body)))
     (server_url (sample_env (scripted [] (ok_response unchanged_body))) @ ''/api/dns/update'') ''POST''
     (Some (update_headers (sample_env (scripted [] (ok_response unchanged_body)))))
     (DictData [(''ip'', JStr ''1.2.3.4'')]) 5
     (log ''INFO'' (''Updating DNS record for '' @ domain (sample_env (scripted [] (ok_response unchanged_body))) @
                    '' to '' @ py_str (sample_env (scripted [] (ok_response unchanged_body))) (JStr ''1.2.3.4'') @ ''...'') s0) =
   (Inr (JDict [(''success'', JBool True), (''result'', JDict [(''status'', JStr ''unchanged'')])]),
    \<lparr>requests = 1,
     trace = [Log ''INFO'' ''Updating DNS record for home.example to 1.2.3.4...'']\<rparr>)"
  by code_simp

lemma update_request_updated:
  "make_request (sample_env (scripted [] (ok_response updated_body)))
     (server_url (sample_env (scripted [] (ok_response updated_body))) @ ''/api/dns/update'') ''POST''
     (Some (update_headers (sample_env (scripted [] (ok_response updated_body)))))
     (DictData [(''ip'', JStr ''1.2.3.4'')]) 5
     (log ''INFO'' (''Updating DNS record for '' @ domain (sample_env (scripted [] (ok_response updated_body))) @
                    '' to '' @ py_str (sample_env (scripted [] (ok_response updated_body))) (JStr ''1.2.3.4'') @ ''...'') s0) =
   (Inr (JDict [(''success'', JBool True), (''result'', JDict [(''status'', JStr ''ok'')])]),
    \<lparr>requests = 1,
     trace = [Log ''INFO'' ''Updating DNS record for home.example to 1.2.3.4...'']\<rparr>)"
  by code_simp

theorem update_dns_returns_response_and_logs_witness:
  "update_dns (sample_env (scripted [] (ok_response unchanged_body))) (JStr ''1.2.3.4'') s0 =
     (Inr (JDict [(''success'', JBool True), (''result'', JDict [(''status'', JStr ''unchanged'')])]),
      \<lparr>requests = 1,
       trace = [Log ''INFO'' ''Updating DNS record for home.example to 1.2.3.4...'',
                Log ''INFO'' ''DNS record is already up-to-date (1.2.3.4)'']\<rparr>) \<and>
   update_dns (sample_env (scripted [] (ok_response updated_body))) (JStr ''1.2.3.4'') s0 =
     (Inr (JDict [(''success'', JBool True), (''result'', JDict [(''status'', JStr ''ok'')])]),
      \<lparr>requests = 1,
       trace = [Log ''INFO'' ''Updating DNS record for home.example to 1.2.3.4...'',
                Log ''INFO'' ''DNS record updated successfully to 1.2.3.4'']\<rparr>)"
proof -
  have k1: "map_of [(''success'', JBool True), (''result'', JDict [(''status'', JStr ''unchanged'')])]
              ''success'' = Some (JBool True) \<and> truthy (JBool True) \<and>
            map_of [(''success'', JBool True), (''result'', JDict [(''status'', JStr ''unchanged'')])]
              ''result'' = Some (JDict [(''status'', JStr ''unchanged'')]) \<and>
            map_of [(''status'', JStr ''unchanged'')] ''status'' = Some (JStr ''unchanged'')"
    by simp
  have k2: "map_of [(''success'', JBool True), (''result'', JDict [(''status'', JStr ''ok'')])]
              ''success'' = Some (JBool True) \<and> truthy (JBool True) \<and>
            map_of [(''success'', JBool True), (''result'', JDict [(''status'', JStr ''ok'')])]
              ''result'' = Some (JDict [(''status'', JStr ''ok'')]) \<and>
            map_of [(''status'', JStr ''ok'')] ''status'' \<noteq> Some (JStr ''unchanged'')"
    by simp
  note a = update_dns_returns_response_and_logs
             [OF update_request_unchanged, THEN conjunct1, rule_format, OF k1]
  note b = update_dns_returns_response_and_logs
             [OF update_request_updated, THEN conjunct2, THEN conjunct1, rule_format, OF k2]
  show ?thesis
    unfolding a b by (simp add: log_def py_str_def)
qed

lemma sample_loads_list: "sample_loads ''[]'' = Decoded (JList [])"
  by (simp add: sample_loads_def)

text \<open>
  C7 as stated fails on a response that is valid JSON but not an object: the update
  endpoint answers 200 with the body \<^verbatim>\<open>[]\<close>, the helper returns the empty list, and
  \<^verbatim>\<open>response.get\<close> raises \<^verbatim>\<open>AttributeError\<close>, which \<^verbatim>\<open>update_dns\<close> logs and raises
  instead of returning the response.
\<close>

theorem update_dns_non_object_counterexample:
  "fst (make_request (sample_env (scripted [] (ok_response ''[]'')))
     (server_url (sample_env (scripted [] (ok_response ''[]''))) @ ''/api/dns/update'') ''POST''
     (Some (update_headers (sample_env (scripted [] (ok_response ''[]'')))))
     (DictData [(''ip'', JStr ''1.2.3.4'')]) 5
     (log ''INFO'' (''Updating DNS record for '' @ domain (sample_env (scripted [] (ok_response ''[]''))) @
                    '' to '' @ py_str (sample_env (scripted [] (ok_response ''[]''))) (JStr ''1.2.3.4'') @ ''...'') s0))
     = Inr (JList []) \<and>
   fst (update_dns (sample_env (scripted [] (ok_response ''[]''))) (JStr ''1.2.3.4'') s0) =
     Inl (Exc ''AttributeError'' (quoted ''list'' @ '' object has no attribute '' @ quoted ''get'')
            None None None)"
  by (simp add: sample_loads_list sample_env_def scripted_def ok_response_def s0_def cycle_defs
        blank_def)

section \<open>The main loop\<close>

text \<open>
  Nothing in a cycle sleeps: the functions of the cycle only print. One pass of the
  loop therefore adds exactly one sleep, of \<^verbatim>\<open>UPDATE_INTERVAL\<close> seconds.
\<close>

lemma sleeps_append: "sleeps (xs @ ys) = sleeps xs @ sleeps ys"
  by (induction xs rule: sleeps.induct) simp_all

lemma sleeps_log: "sleeps (trace (log level msg s)) = sleeps (trace s)"
  by (simp add: log_def sleeps_append)

lemma sleeps_log_error: "sleeps (trace (log_error env ctxt error s)) = sleeps (trace s)"
  by (simp add: log_error_def Let_def sleeps_log split: option.splits)

lemma make_request_trace:
  "make_request env url method headers data max_redirects s = (r, s') \<Longrightarrow> trace s' = trace s"
  by (auto simp: make_request_def split: prod.splits)

lemma sleeps_get_current_ip:
  "get_current_ip env s = (r, s') \<Longrightarrow> sleeps (trace s') = sleeps (trace s)"
  by (auto simp: get_current_ip_def sleeps_log sleeps_log_error
           dest!: make_request_trace split: prod.splits sum.splits)

lemma sleeps_report_update:
  "report_update env ip resp s = Inr s' \<Longrightarrow> sleeps (trace s') = sleeps (trace s)"
  by (auto simp: report_update_def sleeps_log split: sum.splits if_splits)

lemma sleeps_update_dns:
  "update_dns env ip s = (r, s') \<Longrightarrow> sleeps (trace s') = sleeps (trace s)"
  by (auto simp: update_dns_def sleeps_log sleeps_log_error
           dest!: make_request_trace sleeps_report_update split: prod.splits sum.splits)

lemma sleeps_check_and_update_ip:
  "check_and_update_ip env s = (r, s') \<Longrightarrow> r = Inr () \<and> sleeps (trace s') = sleeps (trace s)"
  by (auto simp: check_and_update_ip_def sleeps_log
           dest!: sleeps_get_current_ip sleeps_update_dns split: prod.splits sum.splits)

lemma sleeps_loop_pass:
  "sleeps (trace (loop_pass env s)) = sleeps (trace s) @ [UPDATE_INTERVAL]"
proof -
  obtain r s' where c: "check_and_update_ip env s = (r, s')"
    by (cases "check_and_update_ip env s")
  from sleeps_check_and_update_ip[OF c] c show ?thesis
    by (simp add: loop_pass_def sleep_def sleeps_append)
qed

lemma step_cases:
  "step env p q \<Longrightarrow> \<exists>s. p = Running s \<and> (q = Running (loop_pass env s) \<or> q = handle_signal s)"
  by (auto elim: step.cases)

lemma steps_running:
  "steps env p q \<Longrightarrow> p = Running s \<Longrightarrow>
     (\<exists>s' k. q = Running s' \<and> sleeps (trace s') = sleeps (trace s) @ replicate k UPDATE_INTERVAL) \<or>
     (\<exists>s''. steps env (Running s) (Running s'') \<and> q = handle_signal s'')"
proof (induction rule: steps.induct)
  case (here p)
  then show ?case
    by (auto intro: exI[of _ 0])
next
  case (later p q r)
  from later.IH[OF later.prems] show ?case
  proof
    assume "\<exists>s' k. q = Running s' \<and> sleeps (trace s') = sleeps (trace s) @ replicate k UPDATE_INTERVAL"
    then obtain s' k where q: "q = Running s'"
      and sl: "sleeps (trace s') = sleeps (trace s) @ replicate k UPDATE_INTERVAL" by blast
    from later.hyps(2) q have "r = Running (loop_pass env s') \<or> r = handle_signal s'"
      by (auto elim: step.cases)
    then show ?thesis
    proof
      assume r: "r = Running (loop_pass env s')"
      have "sleeps (trace (loop_pass env s')) = sleeps (trace s) @ replicate (Suc k) UPDATE_INTERVAL"
        by (simp add: sleeps_loop_pass sl replicate_append_same)
      with r show ?thesis by blast
    next
      assume r: "r = handle_signal s'"
      from later.hyps(1) later.prems q have "steps env (Running s) (Running s')" by simp
      with r show ?thesis by blast
    qed
  next
    assume "\<exists>s''. steps env (Running s) (Running s'') \<and> q = handle_signal s''"
    then obtain s'' where "q = handle_signal s''" by blast
    with later.hyps(2) show ?thesis
      by (auto simp: handle_signal_def elim: step.cases)
  qed
qed

text \<open>
  C8. In the step relation over cycles: a running process can always make the next
  pass, and a pass adds one sleep of \<^verbatim>\<open>UPDATE_INTERVAL\<close> seconds, whether the cycle
  succeeded or failed; the only steps are a pass, which leaves the process running,
  and a signal; after any number of steps a process still running has slept the same
  interval each time; and a process that has exited has done so with code 0, by the
  signal handler called in a running state.
\<close>

theorem main_loop_exits_only_by_signal:
  "step env (Running s) (Running (loop_pass env s)) \<and>
   sleeps (trace (loop_pass env s)) = sleeps (trace s) @ [UPDATE_INTERVAL] \<and>
   (\<forall>p q. step env p q \<longrightarrow>
      (\<exists>s1. p = Running s1 \<and> (q = Running (loop_pass env s1) \<or> q = handle_signal s1))) \<and>
   (\<forall>s'. steps env (Running s) (Running s') \<longrightarrow>
      (\<exists>k. sleeps (trace s') = sleeps (trace s) @ replicate k UPDATE_INTERVAL)) \<and>
   (\<forall>code s'. steps env (Running s) (Exited code s') \<longrightarrow>
      code = 0 \<and> (\<exists>s''. steps env (Running s) (Running s'') \<and> Exited code s' = handle_signal s''))"
proof (intro conjI allI impI)
  show "step env (Running s) (Running (loop_pass env s))" by (rule step.pass)
  show "sleeps (trace (loop_pass env s)) = sleeps (trace s) @ [UPDATE_INTERVAL]"
    by (rule sleeps_loop_pass)
next
  fix p q assume "step env p q"
  then show "\<exists>s1. p = Running s1 \<and> (q = Running (loop_pass env s1) \<or> q = handle_signal s1)"
    by (rule step_cases)
next
  fix s' assume "steps env (Running s) (Running s')"
  from steps_running[OF this refl]
  show "\<exists>k. sleeps (trace s') = sleeps (trace s) @ replicate k UPDATE_INTERVAL"
    by (auto simp: handle_signal_def)
next
  fix code s' assume st: "steps env (Running s) (Exited code s')"
  from steps_running[OF st refl]
  obtain s'' where a: "steps env (Running s) (Running s'')" and b: "Exited code s' = handle_signal s''"
    by auto
  from b show "code = 0" by (simp add: handle_signal_def)
  from a b show "\<exists>s''. steps env (Running s) (Running s'') \<and> Exited code s' = handle_signal s''"
    by blast
qed

lemma loop_pass_refused:
  "loop_pass (sample_env (scripted [] connection_refused)) s0 =
     \<lparr>requests = 1,
      trace = [Log ''INFO'' ''Detecting public IP address...'',
               Log ''ERROR'' ''Failed to detect IP address: Request failed: <urlopen error [Errno 111] Connection refused>'',
               Log ''ERROR'' ''Update cycle failed: Failed to detect IP address'',
               Log ''INFO'' ''Will retry in 5.0 minutes'',
               Sleep 300]\<rparr>"
  by (simp add: loop_pass_def check_and_update_ip_def get_current_ip_refused log_def sleep_def
        interval_minutes_def UPDATE_INTERVAL_def)

theorem main_loop_exits_only_by_signal_witness:
  "steps (sample_env (scripted [] connection_refused)) (Running s0)
     (Exited 0
        \<lparr>requests = 1,
         trace = [Log ''INFO'' ''Detecting public IP address...'',
                  Log ''ERROR'' ''Failed to detect IP address: Request failed: <urlopen error [Errno 111] Connection refused>'',
                  Log ''ERROR'' ''Update cycle failed: Failed to detect IP address'',
                  Log ''INFO'' ''Will retry in 5.0 minutes'',
                  Sleep 300,
                  Log ''INFO'' ''Received termination signal. Shutting down...'',
                  Log ''INFO'' ''DDNS client stopped'']\<rparr>) \<and>
   (\<exists>s''. steps (sample_env (scripted [] connection_refused)) (Running s0) (Running s'') \<and>
      Exited 0
        \<lparr>requests = 1,
         trace = [Log ''INFO'' ''Detecting public IP address...'',
                  Log ''ERROR'' ''Failed to detect IP address: Request failed: <urlopen error [Errno 111] Connection refused>'',
                  Log ''ERROR'' ''Update cycle failed: Failed to detect IP address'',
                  Log ''INFO'' ''Will retry in 5.0 minutes'',
                  Sleep 300,
                  Log ''INFO'' ''Received termination signal. Shutting down...'',
                  Log ''INFO'' ''DDNS client stopped'']\<rparr> = handle_signal s'')"
proof -
  let ?E = "sample_env (scripted [] connection_refused)"
  let ?final = "\<lparr>requests = 1,
         trace = [Log ''INFO'' ''Detecting public IP address...'',
                  Log ''ERROR'' ''Failed to detect IP address: Request failed: <urlopen error [Errno 111] Connection refused>'',
                  Log ''ERROR'' ''Update cycle failed: Failed to detect IP address'',
                  Log ''INFO'' ''Will retry in 5.0 minutes'',
                  Sleep 300,
                  Log ''INFO'' ''Received termination signal. Shutting down...'',
                  Log ''INFO'' ''DDNS client stopped'']\<rparr>"
  have "steps ?E (Running s0) (handle_signal (loop_pass ?E s0))"
    by (rule steps.later [OF steps.later [OF steps.here step.pass] step.signal])
  then have st: "steps ?E (Running s0) (Exited 0 ?final)"
    by (simp add: loop_pass_refused handle_signal_def log_def)
  from main_loop_exits_only_by_signal [of ?E s0] st
  have "\<exists>s''. steps ?E (Running s0) (Running s'') \<and> Exited 0 ?final = handle_signal s''"
    by blast
  with st show ?thesis by blast
qed

end
